theory Spec2Isabelle
  imports Complex_Main
begin

section \<open>Numbers\<close>

text \<open>
  The components compute with JavaScript numbers. The model takes the finite numbers to be
  the reals and adds the one non-finite value the code writes down, \<open>Infinity\<close>:
  \<open>Math.log10\<close> and \<open>Math.log2\<close> are the real logarithms (the code calls them on positive
  arguments only), \<open>Math.round\<close> is rounding half up, \<open>Math.floor\<close> and \<open>Math.ceil\<close>
  are the integer floor and ceiling. Rounding errors of IEEE doubles are not modelled; the
  concrete evaluations below stay well away from every rounding or band boundary, except
  where the boundary value is itself exactly representable.
\<close>

datatype number = Infinity | Num real

definition Math_log10 :: "real \<Rightarrow> real" where
  "Math_log10 x = log 10 x"

definition Math_log2 :: "real \<Rightarrow> real" where
  "Math_log2 x = log 2 x"

definition Math_round :: "real \<Rightarrow> real" where
  "Math_round x = of_int \<lfloor>x + 1 / 2\<rfloor>"

text \<open>\<open>x || 0\<close> on an optional number: an absent field gives 0.\<close>

definition orZero :: "real option \<Rightarrow> real" where
  "orZero v = (case v of None \<Rightarrow> 0 | Some x \<Rightarrow> x)"

section \<open>Projects\<close>

datatype category = L1 | L2 | L3 | Application | dApp | Stablecoins

text \<open>
  The objects of \<open>/api/comparison\<close>. Both components read the same objects; the interface of
  InfrastructureComparison declares three more optional fields than the one of Dashboard, and
  the object spread of \<open>calculateAuraScore\<close> copies whatever is there.
\<close>

record CryptoProject =
  name :: string
  category :: category
  secondaryCategory :: "string option"
  amountRaised :: real
  dailyRevenue :: "real option"
  dailyAppFees :: "real option"
  annualizedRevenue :: "real option"
  annualizedAppFees :: "real option"
  fdv :: "real option"
  returnVsFunding :: "real option"
  returnSinceTGE :: "real option"

record ProjectWithAuraScore = CryptoProject +
  auraScore :: number

section \<open>The aura score\<close>

text \<open>\<open>calculateAuraScore\<close> of the Dashboard component.\<close>

definition Dashboard_calculateAuraScore :: "CryptoProject \<Rightarrow> ProjectWithAuraScore" where
  "Dashboard_calculateAuraScore project =
    (let annualizedRevenue' = orZero (annualizedRevenue project);
         annualizedAppFees' = orZero (annualizedAppFees project);
         amountRaised' = amountRaised project;
         weightedAnnualRevenue =
           (if category project = Application \<or> category project = dApp
               \<or> category project = Stablecoins
            then annualizedRevenue' * 1.0
            else (let nativeRevenue = annualizedRevenue' * 1.0;
                      ecosystemRevenue = annualizedAppFees' * 0.7
                  in nativeRevenue + ecosystemRevenue));
         auraScore' =
           (if amountRaised' = 0 then
              (if weightedAnnualRevenue > 0 then Infinity else Num 0)
            else
              (let rawRatio = weightedAnnualRevenue / amountRaised' in
               Num (Math_round
                 (if rawRatio \<le> 0 then - 1000
                  else if rawRatio < 0.001 then Math_log10 (rawRatio * 1000) * 200 - 800
                  else if rawRatio < 0.01 then Math_log10 (rawRatio * 100) * 150 - 200
                  else if rawRatio < 0.1 then Math_log10 (rawRatio * 10) * 200 + 200
                  else if rawRatio < 1 then Math_log10 rawRatio * 300 + 700
                  else if rawRatio < 10 then Math_log2 rawRatio * 400 + 700
                  else if rawRatio < 100 then Math_log2 (rawRatio / 10) * 600 + 2000
                  else Math_log2 (rawRatio / 100) * 1000 + 5000))))
     in CryptoProject.extend project (ProjectWithAuraScore.fields auraScore'))"

text \<open>\<open>calculateAuraScore\<close> of the InfrastructureComparison component.\<close>

definition InfrastructureComparison_calculateAuraScore ::
    "CryptoProject \<Rightarrow> ProjectWithAuraScore" where
  "InfrastructureComparison_calculateAuraScore project =
    (let annualizedRevenue' = orZero (annualizedRevenue project);
         annualizedAppFees' = orZero (annualizedAppFees project);
         amountRaised' = amountRaised project;
         weightedAnnualRevenue =
           (if category project = Application \<or> category project = dApp
               \<or> category project = Stablecoins
            then annualizedRevenue' * 1.0
            else (let nativeRevenue = annualizedRevenue' * 1.0;
                      ecosystemRevenue = annualizedAppFees' * 0.7
                  in nativeRevenue + ecosystemRevenue));
         auraScore' =
           (if amountRaised' = 0 then
              (if weightedAnnualRevenue > 0 then Infinity else Num 0)
            else
              (let rawRatio = weightedAnnualRevenue / amountRaised' in
               Num (Math_round
                 (if rawRatio \<le> 0 then - 1000
                  else if rawRatio < 0.001 then Math_log10 (rawRatio * 1000) * 200 - 800
                  else if rawRatio < 0.01 then Math_log10 (rawRatio * 100) * 150 - 200
                  else if rawRatio < 0.1 then Math_log10 (rawRatio * 10) * 200 + 200
                  else if rawRatio < 1 then Math_log10 rawRatio * 300 + 700
                  else if rawRatio < 10 then Math_log2 rawRatio * 400 + 700
                  else if rawRatio < 100 then Math_log2 (rawRatio / 10) * 600 + 2000
                  else Math_log2 (rawRatio / 100) * 1000 + 5000))))
     in CryptoProject.extend project (ProjectWithAuraScore.fields auraScore'))"

text \<open>
  The local values of \<open>calculateAuraScore\<close>, named for the statements below: the weighted
  revenue, the ratio and the score before \<open>Math.round\<close>.
\<close>

definition weightedAnnualRevenue :: "'a CryptoProject_scheme \<Rightarrow> real" where
  "weightedAnnualRevenue project =
    (if category project = Application \<or> category project = dApp
        \<or> category project = Stablecoins
     then orZero (annualizedRevenue project) * 1.0
     else orZero (annualizedRevenue project) * 1.0 + orZero (annualizedAppFees project) * 0.7)"

definition rawRatio :: "'a CryptoProject_scheme \<Rightarrow> real" where
  "rawRatio project = weightedAnnualRevenue project / amountRaised project"

definition unroundedScore :: "real \<Rightarrow> real" where
  "unroundedScore r =
    (if r \<le> 0 then - 1000
     else if r < 0.001 then Math_log10 (r * 1000) * 200 - 800
     else if r < 0.01 then Math_log10 (r * 100) * 150 - 200
     else if r < 0.1 then Math_log10 (r * 10) * 200 + 200
     else if r < 1 then Math_log10 r * 300 + 700
     else if r < 10 then Math_log2 r * 400 + 700
     else if r < 100 then Math_log2 (r / 10) * 600 + 2000
     else Math_log2 (r / 100) * 1000 + 5000)"

section \<open>Arrays\<close>

text \<open>
  \<open>Array.prototype.sort\<close> with a comparator is stable; for a comparator that is a consistent
  ordering, as the ones below are, its result is the stable sort of the array, which
  insertion from the right computes: an element goes before the first element of the
  sorted rest that the comparator does not put before it (\<open>compare x y \<le> 0\<close>).
\<close>

fun Array_sort_insert :: "('a \<Rightarrow> 'a \<Rightarrow> real) \<Rightarrow> 'a \<Rightarrow> 'a list \<Rightarrow> 'a list" where
  "Array_sort_insert compare x [] = [x]"
| "Array_sort_insert compare x (y # ys) =
    (if compare x y \<le> 0 then x # y # ys else y # Array_sort_insert compare x ys)"

fun Array_sort :: "('a \<Rightarrow> 'a \<Rightarrow> real) \<Rightarrow> 'a list \<Rightarrow> 'a list" where
  "Array_sort compare [] = []"
| "Array_sort compare (x # xs) = Array_sort_insert compare x (Array_sort compare xs)"

text \<open>
  \<open>Array.prototype.slice(start, end)\<close> on integer arguments: a negative index counts from
  the end, every index is clamped to the array, and an empty range gives the empty array.
  \<open>slice(start)\<close> runs to the end of the array.
\<close>

definition relativeIndex :: "int \<Rightarrow> int \<Rightarrow> int" where
  "relativeIndex len i = (if i < 0 then max (len + i) 0 else min i len)"

definition Array_slice :: "'a list \<Rightarrow> int \<Rightarrow> int \<Rightarrow> 'a list" where
  "Array_slice xs start end' =
    (let len = int (length xs);
         k = relativeIndex len start;
         final = relativeIndex len end'
     in take (nat (final - k)) (drop (nat k) xs))"

definition Array_slice_from :: "'a list \<Rightarrow> int \<Rightarrow> 'a list" where
  "Array_slice_from xs start = Array_slice xs start (int (length xs))"

section \<open>Ranking of the projects\<close>

text \<open>The comparator of \<open>sortedProjects\<close> (Dashboard), on the two scores.\<close>

fun compareAuraScore :: "number \<Rightarrow> number \<Rightarrow> real" where
  "compareAuraScore Infinity Infinity = 0"
| "compareAuraScore Infinity (Num b) = - 1"
| "compareAuraScore (Num a) Infinity = 1"
| "compareAuraScore (Num a) (Num b) = b - a"

definition sortedProjects :: "CryptoProject list \<Rightarrow> ProjectWithAuraScore list" where
  "sortedProjects projects =
    (let projectsWithAura = map Dashboard_calculateAuraScore projects
     in Array_sort (\<lambda>a b. compareAuraScore (auraScore a) (auraScore b)) projectsWithAura)"

section \<open>The builder leaderboard\<close>

text \<open>
  \<open>BuilderRevenue\<close> is declared in \<open>@/types\<close>; these are the fields the leaderboard reads.
  \<open>builderName\<close> may be absent or empty, and then the code stands in for it.
\<close>

record BuilderRevenue =
  builderCode :: string
  builderName :: "string option"
  totalRevenue :: real

datatype SortField = Rank | BuilderName | TotalRevenue | AuraRank

datatype SortDirection = Asc | Desc

text \<open>The state of the component, with its initial value.\<close>

record LeaderboardState =
  sortField :: SortField
  sortDirection :: SortDirection
  currentPage :: int

definition initialState :: LeaderboardState where
  "initialState = \<lparr>sortField = TotalRevenue, sortDirection = Desc, currentPage = 1\<rparr>"

definition itemsPerPage :: int where
  "itemsPerPage = 10"

definition handleSort :: "LeaderboardState \<Rightarrow> SortField \<Rightarrow> LeaderboardState" where
  "handleSort st field =
    (if sortField st = field then
       st\<lparr>sortDirection := (if sortDirection st = Asc then Desc else Asc), currentPage := 1\<rparr>
     else
       st\<lparr>sortField := field, sortDirection := Desc, currentPage := 1\<rparr>)"

text \<open>\<open>builder.builderName || builder.builderCode\<close>\<close>

definition displayName :: "BuilderRevenue \<Rightarrow> string" where
  "displayName b =
    (case builderName b of None \<Rightarrow> builderCode b
     | Some n \<Rightarrow> if n = [] then builderCode b else n)"

text \<open>\<open>auraRanks[key] || 999\<close>\<close>

definition auraRankOr999 :: "(string \<rightharpoonup> real) \<Rightarrow> string \<Rightarrow> real" where
  "auraRankOr999 auraRanks key =
    (case auraRanks key of None \<Rightarrow> 999 | Some r \<Rightarrow> if r = 0 then 999 else r)"

text \<open>
  The comparator of \<open>sortedBuilders\<close>. \<open>localeCompare\<close> is the platform's string comparison
  and is a parameter.
\<close>

definition compareBuilders ::
    "(string \<Rightarrow> string \<Rightarrow> real) \<Rightarrow> (string \<rightharpoonup> real) \<Rightarrow> LeaderboardState
      \<Rightarrow> BuilderRevenue \<Rightarrow> BuilderRevenue \<Rightarrow> real" where
  "compareBuilders localeCompare auraRanks st a b =
    (if sortField st = Rank then
       (let aValue = totalRevenue a;
            bValue = totalRevenue b;
            effectiveDirection = (if sortDirection st = Asc then Desc else Asc)
        in if effectiveDirection = Asc then aValue - bValue else bValue - aValue)
     else if sortField st = BuilderName then
       (let aValue = displayName a;
            bValue = displayName b
        in if sortDirection st = Asc then localeCompare aValue bValue
           else localeCompare bValue aValue)
     else if sortField st = AuraRank then
       (let aValue = auraRankOr999 auraRanks (displayName a);
            bValue = auraRankOr999 auraRanks (displayName b)
        in if sortDirection st = Asc then aValue - bValue else bValue - aValue)
     else
       (let aValue = totalRevenue a;
            bValue = totalRevenue b
        in if sortDirection st = Asc then aValue - bValue else bValue - aValue))"

definition sortedBuilders ::
    "(string \<Rightarrow> string \<Rightarrow> real) \<Rightarrow> (string \<rightharpoonup> real) \<Rightarrow> LeaderboardState
      \<Rightarrow> BuilderRevenue list \<Rightarrow> BuilderRevenue list" where
  "sortedBuilders localeCompare auraRanks st builders =
    Array_sort (compareBuilders localeCompare auraRanks st) builders"

definition totalPages :: "BuilderRevenue list \<Rightarrow> int" where
  "totalPages sorted' = \<lceil>real (length sorted') / real_of_int itemsPerPage\<rceil>"

definition paginatedBuilders :: "BuilderRevenue list \<Rightarrow> int \<Rightarrow> BuilderRevenue list" where
  "paginatedBuilders sorted' page =
    Array_slice sorted' ((page - 1) * itemsPerPage) (page * itemsPerPage)"

text \<open>The rows of the table: the rank shown in the first column, and the builder.\<close>

definition tableRows :: "BuilderRevenue list \<Rightarrow> int \<Rightarrow> (int \<times> BuilderRevenue) list" where
  "tableRows sorted' page =
    map (\<lambda>(index, builder). ((page - 1) * itemsPerPage + int index + 1, builder))
      (enumerate 0 (paginatedBuilders sorted' page))"

text \<open>The pagination bar is rendered when there is more than one page.\<close>

definition paginationShown :: "BuilderRevenue list \<Rightarrow> bool" where
  "paginationShown sorted' = (totalPages sorted' > 1)"

definition nextDisabled :: "BuilderRevenue list \<Rightarrow> int \<Rightarrow> bool" where
  "nextDisabled sorted' page = (page = totalPages sorted')"

section \<open>The tiers of the aura view\<close>

text \<open>\<open>renderAuraView\<close>: the podium, the remainder and its three tiers.\<close>

definition topThree :: "'a list \<Rightarrow> 'a list" where
  "topThree projectsWithAura = Array_slice projectsWithAura 0 3"

definition remaining :: "'a list \<Rightarrow> 'a list" where
  "remaining projectsWithAura = Array_slice_from projectsWithAura 3"

definition topTierSize :: "'a list \<Rightarrow> int" where
  "topTierSize rest = max 1 \<lfloor>real (length rest) * 0.2\<rfloor>"

definition cursedTierSize :: "'a list \<Rightarrow> int" where
  "cursedTierSize rest = max 1 \<lfloor>real (length rest) * 0.2\<rfloor>"

definition midTierSize :: "'a list \<Rightarrow> int" where
  "midTierSize rest = int (length rest) - topTierSize rest - cursedTierSize rest"

definition topTier :: "'a list \<Rightarrow> 'a list" where
  "topTier rest = Array_slice rest 0 (topTierSize rest)"

definition midTier :: "'a list \<Rightarrow> 'a list" where
  "midTier rest = Array_slice rest (topTierSize rest) (topTierSize rest + midTierSize rest)"

definition cursedTier :: "'a list \<Rightarrow> 'a list" where
  "cursedTier rest = Array_slice_from rest (topTierSize rest + midTierSize rest)"

section \<open>Example projects\<close>

text \<open>A project with the given category, amount raised, revenue and app fees.\<close>

definition mkProject :: "string \<Rightarrow> category \<Rightarrow> real \<Rightarrow> real \<Rightarrow> real \<Rightarrow> CryptoProject" where
  "mkProject n c raised revenue fees =
    \<lparr>name = n, category = c, secondaryCategory = None, amountRaised = raised,
     dailyRevenue = None, dailyAppFees = None,
     annualizedRevenue = Some revenue, annualizedAppFees = Some fees,
     fdv = None, returnVsFunding = None, returnSinceTGE = None\<rparr>"

section \<open>Properties of the aura score\<close>

lemma mkProject_sel [simp]:
  "category (mkProject n c raised revenue fees) = c"
  "amountRaised (mkProject n c raised revenue fees) = raised"
  "annualizedRevenue (mkProject n c raised revenue fees) = Some revenue"
  "annualizedAppFees (mkProject n c raised revenue fees) = Some fees"
  by (simp_all add: mkProject_def)

lemma auraScore_unfold:
  "auraScore (Dashboard_calculateAuraScore p) =
    (if amountRaised p = 0 then (if weightedAnnualRevenue p > 0 then Infinity else Num 0)
     else Num (Math_round (unroundedScore (rawRatio p))))"
  unfolding Dashboard_calculateAuraScore_def weightedAnnualRevenue_def rawRatio_def
    unroundedScore_def CryptoProject.extend_def ProjectWithAuraScore.fields_def Let_def
  by (simp only: ProjectWithAuraScore.select_convs cong: if_cong)

subsection \<open>Bounds on logarithms\<close>

lemma log_gt_ratio:
  fixes b x :: real
  assumes "1 < b" "0 < x" "0 < n" "b ^ m < x ^ n"
  shows "real m / real n < log b x"
proof -
  have "log b (b ^ m) < log b (x ^ n)"
    using assms by (subst log_less_cancel_iff) simp_all
  moreover have "log b (b ^ m) = real m"
    using assms by (intro log_pow_cancel) simp_all
  moreover have "log b (x ^ n) = real n * log b x"
    using assms by (intro log_nat_power) simp
  ultimately have "real m < real n * log b x" by simp
  with \<open>0 < n\<close> show ?thesis by (simp add: pos_divide_less_eq mult.commute)
qed

lemma log_lt_ratio:
  fixes b x :: real
  assumes "1 < b" "0 < x" "0 < n" "x ^ n < b ^ m"
  shows "log b x < real m / real n"
proof -
  have "log b (x ^ n) < log b (b ^ m)"
    using assms by (subst log_less_cancel_iff) simp_all
  moreover have "log b (b ^ m) = real m"
    using assms by (intro log_pow_cancel) simp_all
  moreover have "log b (x ^ n) = real n * log b x"
    using assms by (intro log_nat_power) simp
  ultimately have "real n * log b x < real m" by simp
  with \<open>0 < n\<close> show ?thesis by (simp add: pos_less_divide_eq mult.commute)
qed

lemma log10_100: "log 10 (100::real) = 2"
proof -
  have "log 10 ((10::real) ^ 2) = real 2" by (intro log_pow_cancel) simp_all
  then show ?thesis by simp
qed

lemma log10_tenth: "log 10 (1 / 10 :: real) = - 1"
  by (simp add: log_divide)

lemma log10_hundredth: "log 10 (1 / 100 :: real) = - 2"
  by (simp add: log_divide log10_100)

lemma log2_9_9_lower: "(205::real) / 62 < log 2 (99 / 10)"
  using log_gt_ratio[of 2 "99 / 10" 62 205] by (simp add: power_divide pos_less_divide_eq)

lemma log2_9_9_upper: "log 2 (99 / 10) < (43::real) / 13"
  using log_lt_ratio[of 2 "99 / 10" 13 43] by (simp add: power_divide pos_divide_less_eq)

lemma log10_0_17_lower: "- (27::real) / 35 < log 10 (17 / 100)"
proof -
  have "(43::real) / 35 < log 10 17"
    using log_gt_ratio[of 10 17 35 43] by simp
  moreover have "log 10 (17 / 100 :: real) = log 10 17 - 2"
    by (simp add: log_divide log10_100)
  ultimately show ?thesis by simp
qed

lemma log10_0_17_upper: "log 10 (17 / 100) < - (10::real) / 13"
proof -
  have "log 10 17 < (16::real) / 13"
    using log_lt_ratio[of 10 17 13 16] by simp
  moreover have "log 10 (17 / 100 :: real) = log 10 17 - 2"
    by (simp add: log_divide log10_100)
  ultimately show ?thesis by simp
qed

subsection \<open>Rounded band values at concrete ratios\<close>

lemma round_band4_0_17: "Math_round (Math_log10 (17 / 100) * 300 + 700) = 469"
proof -
  have "\<lfloor>log 10 (17 / 100 :: real) * 300 + 700 + 1 / 2\<rfloor> = 469"
    using log10_0_17_lower log10_0_17_upper by linarith
  then show ?thesis by (simp add: Math_round_def Math_log10_def)
qed

lemma round_band5_9_9: "Math_round (Math_log2 (99 / 10) * 400 + 700) = 2023"
proof -
  have "\<lfloor>log 2 (99 / 10 :: real) * 400 + 700 + 1 / 2\<rfloor> = 2023"
    using log2_9_9_lower log2_9_9_upper by linarith
  then show ?thesis by (simp add: Math_round_def Math_log2_def)
qed

lemma Math_round_of_int: "Math_round (of_int k) = of_int k"
proof -
  have "\<lfloor>(of_int k :: real) + 1 / 2\<rfloor> = k" by linarith
  then show ?thesis by (simp add: Math_round_def)
qed

subsection \<open>The score in terms of the ratio\<close>

lemma weighted_mkProject_app:
  "weightedAnnualRevenue (mkProject n Application raised revenue fees) = revenue"
  by (simp add: weightedAnnualRevenue_def orZero_def)

lemma weighted_mkProject_L1:
  "weightedAnnualRevenue (mkProject n L1 raised revenue fees) = revenue + fees * 0.7"
  by (simp add: weightedAnnualRevenue_def orZero_def)

lemma unrounded_band1: "0 < r \<Longrightarrow> r < 0.001 \<Longrightarrow> unroundedScore r = Math_log10 (r * 1000) * 200 - 800"
  by (simp add: unroundedScore_def)

lemma unrounded_band4: "0.1 \<le> r \<Longrightarrow> r < 1 \<Longrightarrow> unroundedScore r = Math_log10 r * 300 + 700"
  by (simp add: unroundedScore_def)

lemma unrounded_band5: "1 \<le> r \<Longrightarrow> r < 10 \<Longrightarrow> unroundedScore r = Math_log2 r * 400 + 700"
  by (simp add: unroundedScore_def)

lemma unrounded_band6: "10 \<le> r \<Longrightarrow> r < 100 \<Longrightarrow> unroundedScore r = Math_log2 (r / 10) * 600 + 2000"
  by (simp add: unroundedScore_def)

lemma band1_below_documented_range:
  assumes "0 < r" "r < 0.001"
  shows "unroundedScore r < - 800"
proof -
  have "log 10 (r * 1000) < 0" using assms by simp
  then show ?thesis using assms by (simp add: unrounded_band1 Math_log10_def)
qed

subsection \<open>Where the score is monotone\<close>

text \<open>
  In terms of the logarithm of the ratio the bands below 10 are linear pieces that join
  upwards, and so are the two bands from 10 on: the score before and after rounding is
  non-decreasing in the ratio on \<open>0 < ratio < 10\<close> and on \<open>10 \<le> ratio\<close>.
\<close>

lemma Math_round_mono: "x \<le> y \<Longrightarrow> Math_round x \<le> Math_round y"
  by (simp add: Math_round_def floor_mono)

lemma log10_shift:
  assumes "0 < r"
  shows "log 10 (r * 1000) = log 10 r + 3" "log 10 (r * 100) = log 10 r + 2"
    "log 10 (r * 10) = log 10 r + 1"
proof -
  have "log 10 ((10::real) ^ 3) = real 3" by (intro log_pow_cancel) simp_all
  then have "log 10 (1000::real) = 3" by simp
  then show "log 10 (r * 1000) = log 10 r + 3" using assms by (simp add: log_mult)
  show "log 10 (r * 100) = log 10 r + 2" using assms by (simp add: log_mult log10_100)
  show "log 10 (r * 10) = log 10 r + 1" using assms by (simp add: log_mult)
qed

lemma log10_thousandth: "log 10 (1 / 1000 :: real) = - 3"
proof -
  have "log 10 ((10::real) ^ 3) = real 3" by (intro log_pow_cancel) simp_all
  then have "log 10 (1000::real) = 3" by simp
  then show ?thesis by (simp add: log_divide)
qed

lemma log10_band_iff:
  assumes "0 < r"
  shows "r < 1 / 1000 \<longleftrightarrow> log 10 r < - 3" "r < 1 / 100 \<longleftrightarrow> log 10 r < - 2"
    "r < 1 / 10 \<longleftrightarrow> log 10 r < - 1" "r < 1 \<longleftrightarrow> log 10 r < 0"
proof -
  have "r < 1 / 1000 \<longleftrightarrow> log 10 r < log 10 (1 / 1000)"
    by (rule log_less_cancel_iff[symmetric]) (use assms in simp_all)
  then show "r < 1 / 1000 \<longleftrightarrow> log 10 r < - 3" by (simp only: log10_thousandth)
  have "r < 1 / 100 \<longleftrightarrow> log 10 r < log 10 (1 / 100)"
    by (rule log_less_cancel_iff[symmetric]) (use assms in simp_all)
  then show "r < 1 / 100 \<longleftrightarrow> log 10 r < - 2" by (simp only: log10_hundredth)
  have "r < 1 / 10 \<longleftrightarrow> log 10 r < log 10 (1 / 10)"
    by (rule log_less_cancel_iff[symmetric]) (use assms in simp_all)
  then show "r < 1 / 10 \<longleftrightarrow> log 10 r < - 1" by (simp only: log10_tenth)
  show "r < 1 \<longleftrightarrow> log 10 r < 0" using assms by simp
qed

lemma unroundedScore_alt:
  "unroundedScore r =
    (if r \<le> 0 then - 1000
     else if r < 1 / 1000 then log 10 (r * 1000) * 200 - 800
     else if r < 1 / 100 then log 10 (r * 100) * 150 - 200
     else if r < 1 / 10 then log 10 (r * 10) * 200 + 200
     else if r < 1 then log 10 r * 300 + 700
     else if r < 10 then log 2 r * 400 + 700
     else if r < 100 then log 2 (r / 10) * 600 + 2000
     else log 2 (r / 100) * 1000 + 5000)"
  by (simp add: unroundedScore_def Math_log10_def Math_log2_def)

lemma unroundedScore_below_10:
  assumes "0 < r" "r < 10"
  shows "unroundedScore r =
    (if log 10 r < - 3 then log 10 r * 200 - 200
     else if log 10 r < - 2 then log 10 r * 150 + 100
     else if log 10 r < - 1 then log 10 r * 200 + 400
     else if log 10 r < 0 then log 10 r * 300 + 700
     else log 2 r * 400 + 700)"
proof -
  have nz: "\<not> r \<le> 0" "r < 10" using assms by simp_all
  have "unroundedScore r =
    (if log 10 r < - 3 then (log 10 r + 3) * 200 - 800
     else if log 10 r < - 2 then (log 10 r + 2) * 150 - 200
     else if log 10 r < - 1 then (log 10 r + 1) * 200 + 200
     else if log 10 r < 0 then log 10 r * 300 + 700
     else log 2 r * 400 + 700)"
    by (simp only: unroundedScore_alt log10_band_iff[OF assms(1)] log10_shift[OF assms(1)]
        nz if_False if_True)
  also have "\<dots> = (if log 10 r < - 3 then log 10 r * 200 - 200
     else if log 10 r < - 2 then log 10 r * 150 + 100
     else if log 10 r < - 1 then log 10 r * 200 + 400
     else if log 10 r < 0 then log 10 r * 300 + 700
     else log 2 r * 400 + 700)"
    by (simp only: distrib_right) simp
  finally show ?thesis .
qed

lemma bands_below_10_mono:
  fixes a b c d :: real
  assumes "a \<le> b" "c \<le> d" "\<not> a < 0 \<Longrightarrow> 0 \<le> c" "\<not> b < 0 \<Longrightarrow> 0 \<le> d"
  shows "(if a < - 3 then a * 200 - 200
     else if a < - 2 then a * 150 + 100
     else if a < - 1 then a * 200 + 400
     else if a < 0 then a * 300 + 700
     else c * 400 + 700)
   \<le> (if b < - 3 then b * 200 - 200
     else if b < - 2 then b * 150 + 100
     else if b < - 1 then b * 200 + 400
     else if b < 0 then b * 300 + 700
     else d * 400 + 700)"
proof -
  consider "a < - 3" | "- 3 \<le> a" "a < - 2" | "- 2 \<le> a" "a < - 1" | "- 1 \<le> a" "a < 0"
    | "0 \<le> a" by linarith
  then show ?thesis
  proof cases
    case 1
    with assms show ?thesis by (cases "b < - 3"; cases "b < - 2"; cases "b < - 1"; cases "b < 0") simp_all
  next
    case 2
    with assms show ?thesis by (cases "b < - 2"; cases "b < - 1"; cases "b < 0") simp_all
  next
    case 3
    with assms show ?thesis by (cases "b < - 1"; cases "b < 0") simp_all
  next
    case 4
    with assms show ?thesis by (cases "b < 0") simp_all
  next
    case 5
    with assms show ?thesis by simp
  qed
qed

lemma unroundedScore_mono_below_10:
  assumes "0 < r1" "r1 \<le> r2" "r2 < 10"
  shows "unroundedScore r1 \<le> unroundedScore r2"
proof -
  have p2: "0 < r2" and l1: "r1 < 10" using assms by simp_all
  have a: "log 10 r1 \<le> log 10 r2" using assms by simp
  have b: "log 2 r1 \<le> log 2 r2" using assms by simp
  have c: "0 \<le> log 2 r1" if "\<not> log 10 r1 < 0"
    using that assms(1) by simp
  have d: "0 \<le> log 2 r2" if "\<not> log 10 r2 < 0"
    using that p2 by simp
  show ?thesis
    unfolding unroundedScore_below_10[OF assms(1) l1] unroundedScore_below_10[OF p2 assms(3)]
    using a b c d by (rule bands_below_10_mono)
qed

lemma log2_10_le_5: "log 2 (10::real) \<le> 5"
proof -
  have "log 2 (10::real) \<le> log 2 (2 ^ 5)" by (subst log_le_cancel_iff) simp_all
  also have "\<dots> = real 5" by (intro log_pow_cancel) simp_all
  finally show ?thesis by simp
qed

lemma unroundedScore_from_10:
  assumes "10 \<le> r"
  shows "unroundedScore r =
    (if log 2 (r / 10) < log 2 10 then log 2 (r / 10) * 600 + 2000
     else (log 2 (r / 10) - log 2 10) * 1000 + 5000)"
proof -
  have p: "0 < r" using assms by simp
  have nz: "\<not> r \<le> 0" "\<not> r < 1 / 1000" "\<not> r < 1 / 100" "\<not> r < 1 / 10" "\<not> r < 1"
    "\<not> r < 10" using assms by simp_all
  have "log 2 (r / 10) < log 2 10 \<longleftrightarrow> r / 10 < 10"
    by (rule log_less_cancel_iff) (use p in simp_all)
  then have i: "r < 100 \<longleftrightarrow> log 2 (r / 10) < log 2 10" by auto
  have "log 2 (r / 10 / 10) = log 2 (r / 10) - log 2 10"
    using p by (intro log_divide_pos) simp_all
  then have j: "log 2 (r / 100) = log 2 (r / 10) - log 2 10" by simp
  show ?thesis
    by (simp only: unroundedScore_alt nz if_False i j)
qed

lemma unroundedScore_mono_from_10:
  assumes "10 \<le> r1" "r1 \<le> r2"
  shows "unroundedScore r1 \<le> unroundedScore r2"
proof -
  have g: "10 \<le> r2" using assms by simp
  have a: "log 2 (r1 / 10) \<le> log 2 (r2 / 10)" using assms by simp
  have n: "0 \<le> log 2 (r1 / 10)" using assms by simp
  show ?thesis
  proof (cases "log 2 (r1 / 10) < log 2 10")
    case True
    show ?thesis
    proof (cases "log 2 (r2 / 10) < log 2 10")
      case True
      with \<open>log 2 (r1 / 10) < log 2 10\<close> a show ?thesis
        by (simp add: unroundedScore_from_10[OF assms(1)] unroundedScore_from_10[OF g])
    next
      case False
      with True a log2_10_le_5 show ?thesis
        by (simp add: unroundedScore_from_10[OF assms(1)] unroundedScore_from_10[OF g])
    qed
  next
    case False
    with a have "\<not> log 2 (r2 / 10) < log 2 10" by linarith
    with False a show ?thesis
      by (simp add: unroundedScore_from_10[OF assms(1)] unroundedScore_from_10[OF g])
  qed
qed

lemma rounded_score_mono_below_10:
  assumes "0 < r1" "r1 \<le> r2" "r2 < 10"
  shows "Math_round (unroundedScore r1) \<le> Math_round (unroundedScore r2)"
  using assms by (intro Math_round_mono unroundedScore_mono_below_10)

lemma rounded_score_mono_from_10:
  assumes "10 \<le> r1" "r1 \<le> r2"
  shows "Math_round (unroundedScore r1) \<le> Math_round (unroundedScore r2)"
  using assms by (intro Math_round_mono unroundedScore_mono_from_10)

subsection \<open>The two implementations\<close>

text \<open>
  C6. The two implementations of \<open>calculateAuraScore\<close>, the one of Dashboard and the one
  of InfrastructureComparison, return the same result on every project.
\<close>

theorem calculateAuraScore_implementations_agree:
  "Dashboard_calculateAuraScore project = InfrastructureComparison_calculateAuraScore project"
  unfolding Dashboard_calculateAuraScore_def InfrastructureComparison_calculateAuraScore_def
  by (rule refl)

subsection \<open>Worked examples\<close>

text \<open>
  C2, as the code has it. For \<open>category = L1\<close>, \<open>annualizedRevenue = 100\<close>,
  \<open>annualizedAppFees = 100\<close> and \<open>amountRaised = 1000\<close> the weighted revenue is 170, the
  ratio is 0.17 and the score is \<open>round (log10 0.17 * 300 + 700)\<close>, which is 469
  (the unrounded value lies between 469.0 and 469.3).
\<close>

theorem aura_score_L1_example:
  "weightedAnnualRevenue (mkProject ''P'' L1 1000 100 100) = 170
   \<and> rawRatio (mkProject ''P'' L1 1000 100 100) = 0.17
   \<and> auraScore (Dashboard_calculateAuraScore (mkProject ''P'' L1 1000 100 100))
       = Num (Math_round (Math_log10 0.17 * 300 + 700))
   \<and> auraScore (Dashboard_calculateAuraScore (mkProject ''P'' L1 1000 100 100)) = Num 469"
proof -
  let ?p = "mkProject ''P'' L1 1000 100 100"
  have w: "weightedAnnualRevenue ?p = 170" by (simp add: weighted_mkProject_L1)
  have r: "rawRatio ?p = 17 / 100" by (simp add: rawRatio_def w)
  have u: "unroundedScore (17 / 100) = Math_log10 (17 / 100) * 300 + 700"
    by (simp add: unrounded_band4)
  have s: "auraScore (Dashboard_calculateAuraScore ?p)
      = Num (Math_round (Math_log10 (17 / 100) * 300 + 700))"
    by (simp add: auraScore_unfold r u)
  show ?thesis using w r s by (simp add: round_band4_0_17)
qed

text \<open>C2, as stated: the score of that project is not 525.\<close>

theorem aura_score_L1_example_not_525:
  "auraScore (Dashboard_calculateAuraScore (mkProject ''P'' L1 1000 100 100)) \<noteq> Num 525"
proof -
  let ?p = "mkProject ''P'' L1 1000 100 100"
  have r: "rawRatio ?p = 17 / 100" by (simp add: rawRatio_def weighted_mkProject_L1)
  have "auraScore (Dashboard_calculateAuraScore ?p) = Num 469"
    by (simp add: auraScore_unfold r unrounded_band4 round_band4_0_17)
  then show ?thesis by simp
qed

text \<open>
  C5. For \<open>category = Application\<close>, \<open>annualizedRevenue = 50\<close>, \<open>annualizedAppFees = 1000\<close>
  and \<open>amountRaised = 500\<close> the app fees are ignored (the weighted revenue is 50), the ratio
  is exactly 0.1, and the score is the one of the band from 0.1 to 1,
  \<open>round (log10 ratio * 300 + 700) = 400\<close>, not the one of the band from 0.01 to 0.1
  (which would be 200).
\<close>

theorem aura_score_band_boundary_example:
  "weightedAnnualRevenue (mkProject ''Q'' Application 500 50 1000) = 50
   \<and> rawRatio (mkProject ''Q'' Application 500 50 1000) = 0.1
   \<and> auraScore (Dashboard_calculateAuraScore (mkProject ''Q'' Application 500 50 1000))
       = Num (Math_round (Math_log10 (rawRatio (mkProject ''Q'' Application 500 50 1000)) * 300 + 700))
   \<and> auraScore (Dashboard_calculateAuraScore (mkProject ''Q'' Application 500 50 1000)) = Num 400
   \<and> auraScore (Dashboard_calculateAuraScore (mkProject ''Q'' Application 500 50 1000))
       \<noteq> Num (Math_round (Math_log10 (rawRatio (mkProject ''Q'' Application 500 50 1000) * 10) * 200 + 200))"
proof -
  let ?p = "mkProject ''Q'' Application 500 50 1000"
  have w: "weightedAnnualRevenue ?p = 50" by (simp add: weighted_mkProject_app)
  have r: "rawRatio ?p = 1 / 10" by (simp add: rawRatio_def w)
  have u: "unroundedScore (1 / 10) = Math_log10 (1 / 10) * 300 + 700"
    by (simp add: unrounded_band4)
  have s: "auraScore (Dashboard_calculateAuraScore ?p)
      = Num (Math_round (Math_log10 (1 / 10) * 300 + 700))"
    by (simp add: auraScore_unfold r u)
  have v4: "Math_round (Math_log10 (1 / 10) * 300 + 700) = 400"
    using Math_round_of_int[of 400] by (simp add: Math_log10_def log10_tenth)
  have v3: "Math_round (Math_log10 (1 / 10 * 10) * 200 + 200) = 200"
    using Math_round_of_int[of 200] by (simp add: Math_log10_def)
  show ?thesis unfolding r w s v4 v3 by simp
qed

subsection \<open>The bands against their documented ranges\<close>

text \<open>
  C1, at the boundary between the bands \<open>1 \<le> ratio < 10\<close> and \<open>10 \<le> ratio < 100\<close>: a
  project with ratio 9.9 scores 2023 and a project with ratio 10 scores 2000, so the score
  falls where the ratio rises. The comments of the code give the two bands the ranges
  700-2000 and 2000-5000.
\<close>

theorem aura_score_drops_at_ratio_ten:
  "rawRatio (mkProject ''A'' Application 10 99 0) = 9.9
   \<and> rawRatio (mkProject ''B'' Application 10 100 0) = 10
   \<and> auraScore (Dashboard_calculateAuraScore (mkProject ''A'' Application 10 99 0)) = Num 2023
   \<and> auraScore (Dashboard_calculateAuraScore (mkProject ''B'' Application 10 100 0)) = Num 2000"
proof -
  let ?a = "mkProject ''A'' Application 10 99 0"
  let ?b = "mkProject ''B'' Application 10 100 0"
  have ra: "rawRatio ?a = 99 / 10" by (simp add: rawRatio_def weighted_mkProject_app)
  have rb: "rawRatio ?b = 10" by (simp add: rawRatio_def weighted_mkProject_app)
  have sa: "auraScore (Dashboard_calculateAuraScore ?a) = Num 2023"
    by (simp add: auraScore_unfold ra unrounded_band5 round_band5_9_9)
  have ub: "unroundedScore 10 = 2000" by (simp add: unrounded_band6 Math_log2_def)
  have sb: "auraScore (Dashboard_calculateAuraScore ?b) = Num 2000"
    using Math_round_of_int[of 2000] by (simp add: auraScore_unfold rb ub)
  show ?thesis using ra rb sa sb by simp
qed

text \<open>
  C3, at two ratios. At ratio 0.0001, in the band \<open>0 < ratio < 0.001\<close>, the unrounded value
  \<open>log10 (ratio * 1000) * 200 - 800\<close> is -1000, outside the documented range from -800 to
  -200; at ratio 9.9, in the band \<open>1 \<le> ratio < 10\<close>, the unrounded value
  \<open>log2 ratio * 400 + 700\<close> is above 2000, outside the documented range from 700 to 2000.
\<close>

theorem band_values_outside_documented_ranges:
  "rawRatio (mkProject ''C'' Application 10000 1 0) = 0.0001
   \<and> unroundedScore 0.0001 = Math_log10 (0.0001 * 1000) * 200 - 800
   \<and> unroundedScore 0.0001 = - 1000
   \<and> rawRatio (mkProject ''A'' Application 10 99 0) = 9.9
   \<and> unroundedScore 9.9 = Math_log2 9.9 * 400 + 700
   \<and> 2000 < unroundedScore 9.9"
proof -
  have r: "rawRatio (mkProject ''C'' Application 10000 1 0) = 1 / 10000"
    by (simp add: rawRatio_def weighted_mkProject_app)
  have u: "unroundedScore (1 / 10000) = Math_log10 (1 / 10000 * 1000) * 200 - 800"
    by (simp add: unrounded_band1)
  have v: "unroundedScore (1 / 10000) = - 1000"
    by (simp add: u Math_log10_def log10_tenth)
  have ra: "rawRatio (mkProject ''A'' Application 10 99 0) = 99 / 10"
    by (simp add: rawRatio_def weighted_mkProject_app)
  have ua: "unroundedScore (99 / 10) = Math_log2 (99 / 10) * 400 + 700"
    by (simp add: unrounded_band5)
  have va: "2000 < unroundedScore (99 / 10)"
    unfolding ua Math_log2_def using log2_9_9_lower by linarith
  show ?thesis using r u v ra ua va by simp
qed

text \<open>
  C10, at two funded projects with positive weighted revenue: with ratio 0.00001 the score
  is -1200, below -1000; with ratio 0.0001 the score is -1000 although the weighted revenue
  is not 0.
\<close>

theorem aura_score_below_minus_1000:
  "0 < amountRaised (mkProject ''D'' Application 100000 1 0)
   \<and> weightedAnnualRevenue (mkProject ''D'' Application 100000 1 0) = 1
   \<and> auraScore (Dashboard_calculateAuraScore (mkProject ''D'' Application 100000 1 0)) = Num (- 1200)
   \<and> 0 < amountRaised (mkProject ''C'' Application 10000 1 0)
   \<and> weightedAnnualRevenue (mkProject ''C'' Application 10000 1 0) = 1
   \<and> auraScore (Dashboard_calculateAuraScore (mkProject ''C'' Application 10000 1 0)) = Num (- 1000)"
proof -
  let ?c = "mkProject ''C'' Application 10000 1 0"
  let ?d = "mkProject ''D'' Application 100000 1 0"
  have rc: "rawRatio ?c = 1 / 10000" by (simp add: rawRatio_def weighted_mkProject_app)
  have rd: "rawRatio ?d = 1 / 100000" by (simp add: rawRatio_def weighted_mkProject_app)
  have uc: "unroundedScore (1 / 10000) = - 1000"
    by (simp add: unrounded_band1 Math_log10_def log10_tenth)
  have ud: "unroundedScore (1 / 100000) = - 1200"
    by (simp add: unrounded_band1 Math_log10_def log10_hundredth)
  have sc: "auraScore (Dashboard_calculateAuraScore ?c) = Num (- 1000)"
    using Math_round_of_int[of "- 1000"] by (simp add: auraScore_unfold rc uc)
  have sd: "auraScore (Dashboard_calculateAuraScore ?d) = Num (- 1200)"
    using Math_round_of_int[of "- 1200"] by (simp add: auraScore_unfold rd ud)
  show ?thesis using sc sd by (simp add: weighted_mkProject_app)
qed

section \<open>Properties of the arrays\<close>

subsection \<open>Sorting\<close>

lemma set_Array_sort_insert: "set (Array_sort_insert c x ys) = insert x (set ys)"
  by (induction ys) auto

lemma set_Array_sort: "set (Array_sort c xs) = set xs"
  by (induction xs) (auto simp: set_Array_sort_insert)

lemma length_Array_sort_insert: "length (Array_sort_insert c x ys) = Suc (length ys)"
  by (induction ys) auto

lemma length_Array_sort: "length (Array_sort c xs) = length xs"
  by (induction xs) (auto simp: length_Array_sort_insert)

lemma sorted_Array_sort_insert:
  assumes total: "\<And>a b. c a b \<le> 0 \<or> c b a \<le> 0"
    and trans: "\<And>a b d. c a b \<le> 0 \<Longrightarrow> c b d \<le> 0 \<Longrightarrow> c a d \<le> 0"
  shows "sorted_wrt (\<lambda>a b. c a b \<le> 0) ys \<Longrightarrow> sorted_wrt (\<lambda>a b. c a b \<le> 0) (Array_sort_insert c x ys)"
proof (induction ys)
  case Nil
  then show ?case by simp
next
  case (Cons y ys)
  show ?case
  proof (cases "c x y \<le> 0")
    case True
    have "\<forall>z\<in>set ys. c x z \<le> 0"
      using Cons.prems True trans by auto
    with True Cons.prems show ?thesis by simp
  next
    case False
    then have "c y x \<le> 0" using total[of x y] by simp
    with False Cons show ?thesis by (auto simp: set_Array_sort_insert)
  qed
qed

lemma sorted_Array_sort:
  assumes total: "\<And>a b. c a b \<le> 0 \<or> c b a \<le> 0"
    and trans: "\<And>a b d. c a b \<le> 0 \<Longrightarrow> c b d \<le> 0 \<Longrightarrow> c a d \<le> 0"
  shows "sorted_wrt (\<lambda>a b. c a b \<le> 0) (Array_sort c xs)"
  by (induction xs) (simp_all add: sorted_Array_sort_insert[OF total trans])

subsection \<open>Slices\<close>

lemma Array_slice_nonneg:
  assumes "0 \<le> a" "a \<le> b"
  shows "Array_slice xs a b = take (nat b - nat a) (drop (nat a) xs)"
proof -
  have "take (nat (min b (int (length xs)) - min a (int (length xs)))) (drop (nat (min a (int (length xs)))) xs)
      = take (nat b - nat a) (drop (nat a) xs)"
  proof (cases "a \<le> int (length xs)")
    case True
    then have m: "min a (int (length xs)) = a" by simp
    show ?thesis
    proof (cases "b \<le> int (length xs)")
      case True
      with assms show ?thesis by (simp add: m nat_diff_distrib)
    next
      case False
      with assms True show ?thesis by (simp add: m min_def nat_diff_distrib)
    qed
  next
    case False
    with assms show ?thesis by (simp add: min_def)
  qed
  with assms show ?thesis by (simp add: Array_slice_def relativeIndex_def Let_def)
qed

lemma Array_slice_from_nonneg:
  assumes "0 \<le> a"
  shows "Array_slice_from xs a = drop (nat a) xs"
  using assms by (simp add: Array_slice_from_def Array_slice_def relativeIndex_def Let_def min_def)

section \<open>Properties of the ranking\<close>

lemma compareAuraScore_le0:
  "compareAuraScore a b \<le> 0 \<longleftrightarrow> (a = Infinity \<or> (\<exists>x y. a = Num x \<and> b = Num y \<and> y \<le> x))"
  by (cases a; cases b) auto

lemma compareAuraScore_total: "compareAuraScore a b \<le> 0 \<or> compareAuraScore b a \<le> 0"
  by (cases a; cases b) auto

lemma compareAuraScore_trans:
  "compareAuraScore a b \<le> 0 \<Longrightarrow> compareAuraScore b d \<le> 0 \<Longrightarrow> compareAuraScore a d \<le> 0"
  by (cases a; cases b; cases d) auto

lemma sortedProjects_sorted:
  "sorted_wrt (\<lambda>a b. compareAuraScore (auraScore a) (auraScore b) \<le> 0) (sortedProjects ps)"
  unfolding sortedProjects_def Let_def
proof (rule sorted_Array_sort)
  fix a b :: ProjectWithAuraScore
  show "compareAuraScore (auraScore a) (auraScore b) \<le> 0
      \<or> compareAuraScore (auraScore b) (auraScore a) \<le> 0"
    by (rule compareAuraScore_total)
next
  fix a b d :: ProjectWithAuraScore
  assume "compareAuraScore (auraScore a) (auraScore b) \<le> 0"
    and "compareAuraScore (auraScore b) (auraScore d) \<le> 0"
  then show "compareAuraScore (auraScore a) (auraScore d) \<le> 0"
    by (rule compareAuraScore_trans)
qed

lemma infinity_first:
  assumes "i < length (sortedProjects ps)" "j < length (sortedProjects ps)"
    and "auraScore (sortedProjects ps ! i) = Infinity"
    and "auraScore (sortedProjects ps ! j) \<noteq> Infinity"
  shows "i < j"
proof (rule ccontr)
  assume "\<not> i < j"
  with assms have "j < i" by (cases "i = j") auto
  with sortedProjects_sorted[of ps] assms(1)
  have "compareAuraScore (auraScore (sortedProjects ps ! j)) (auraScore (sortedProjects ps ! i)) \<le> 0"
    by (simp add: sorted_wrt_iff_nth_less)
  with assms(3,4) show False by (simp add: compareAuraScore_le0)
qed

text \<open>
  C4. A project with \<open>amountRaised = 0\<close> scores \<open>Infinity\<close> when its weighted revenue is
  positive and exactly 0 when its weighted revenue is 0, neither value passing through
  \<open>Math.round\<close>; and in \<open>sortedProjects\<close> of any list of projects, the entry of such a
  project with positive weighted revenue stands before every entry with a finite score.
\<close>

theorem bootstrapped_score_and_rank:
  assumes "amountRaised p = 0"
  shows "(0 < weightedAnnualRevenue p \<longrightarrow> auraScore (Dashboard_calculateAuraScore p) = Infinity)
    \<and> (weightedAnnualRevenue p = 0 \<longrightarrow> auraScore (Dashboard_calculateAuraScore p) = Num 0)
    \<and> (\<forall>ps i j. 0 < weightedAnnualRevenue p
          \<and> i < length (sortedProjects ps) \<and> j < length (sortedProjects ps)
          \<and> sortedProjects ps ! i = Dashboard_calculateAuraScore p
          \<and> auraScore (sortedProjects ps ! j) \<noteq> Infinity
        \<longrightarrow> i < j)"
proof (intro conjI allI impI)
  assume "0 < weightedAnnualRevenue p"
  with assms show "auraScore (Dashboard_calculateAuraScore p) = Infinity"
    by (simp add: auraScore_unfold)
next
  assume "weightedAnnualRevenue p = 0"
  with assms show "auraScore (Dashboard_calculateAuraScore p) = Num 0"
    by (simp add: auraScore_unfold)
next
  fix ps i j
  assume h: "0 < weightedAnnualRevenue p
          \<and> i < length (sortedProjects ps) \<and> j < length (sortedProjects ps)
          \<and> sortedProjects ps ! i = Dashboard_calculateAuraScore p
          \<and> auraScore (sortedProjects ps ! j) \<noteq> Infinity"
  with assms have "auraScore (sortedProjects ps ! i) = Infinity"
    by (simp add: auraScore_unfold)
  with h show "i < j" by (intro infinity_first[of i ps j]) simp_all
qed

text \<open>
  C4 at a bootstrapped project with revenue 100, at a bootstrapped project without revenue,
  and in the ranking of a funded project followed by the bootstrapped one.
\<close>

theorem bootstrapped_score_and_rank_witness:
  "amountRaised (mkProject ''Boot'' Application 0 100 0) = 0
   \<and> 0 < weightedAnnualRevenue (mkProject ''Boot'' Application 0 100 0)
   \<and> auraScore (Dashboard_calculateAuraScore (mkProject ''Boot'' Application 0 100 0)) = Infinity
   \<and> amountRaised (mkProject ''Idle'' L1 0 0 0) = 0
   \<and> weightedAnnualRevenue (mkProject ''Idle'' L1 0 0 0) = 0
   \<and> auraScore (Dashboard_calculateAuraScore (mkProject ''Idle'' L1 0 0 0)) = Num 0
   \<and> sortedProjects [mkProject ''B'' Application 10 100 0, mkProject ''Boot'' Application 0 100 0]
      = [Dashboard_calculateAuraScore (mkProject ''Boot'' Application 0 100 0),
         Dashboard_calculateAuraScore (mkProject ''B'' Application 10 100 0)]
   \<and> auraScore (Dashboard_calculateAuraScore (mkProject ''B'' Application 10 100 0)) \<noteq> Infinity"
proof -
  let ?boot = "mkProject ''Boot'' Application 0 100 0"
  let ?idle = "mkProject ''Idle'' L1 0 0 0"
  let ?b = "mkProject ''B'' Application 10 100 0"
  have w: "weightedAnnualRevenue ?boot = 100" "weightedAnnualRevenue ?idle = 0"
    by (simp_all add: weightedAnnualRevenue_def orZero_def)
  have a: "auraScore (Dashboard_calculateAuraScore ?boot) = Infinity"
    using bootstrapped_score_and_rank[of ?boot] w by simp
  have i: "auraScore (Dashboard_calculateAuraScore ?idle) = Num 0"
    using bootstrapped_score_and_rank[of ?idle] w by simp
  have b: "auraScore (Dashboard_calculateAuraScore ?b) = Num (Math_round (unroundedScore 10))"
    by (simp add: auraScore_unfold rawRatio_def weighted_mkProject_app)
  have s: "sortedProjects [?b, ?boot]
      = [Dashboard_calculateAuraScore ?boot, Dashboard_calculateAuraScore ?b]"
    by (simp add: sortedProjects_def a b)
  show ?thesis using w a i s b by simp
qed

section \<open>Properties of the leaderboard\<close>

lemma length_sortedBuilders: "length (sortedBuilders lc ar st builders) = length builders"
  by (simp add: sortedBuilders_def length_Array_sort)

lemma compareBuilders_rank_asc:
  "sortField st = Rank \<Longrightarrow> sortDirection st = Asc \<Longrightarrow>
    compareBuilders lc ar st a b = totalRevenue b - totalRevenue a"
  by (simp add: compareBuilders_def)

lemma compareBuilders_rank_desc:
  "sortField st = Rank \<Longrightarrow> sortDirection st = Desc \<Longrightarrow>
    compareBuilders lc ar st a b = totalRevenue a - totalRevenue b"
  by (simp add: compareBuilders_def)

lemma sortedBuilders_rank_asc:
  assumes "sortField st = Rank" "sortDirection st = Asc"
  shows "sorted_wrt (\<lambda>a b. totalRevenue a \<ge> totalRevenue b) (sortedBuilders lc ar st builders)"
proof -
  have "sorted_wrt (\<lambda>a b. compareBuilders lc ar st a b \<le> 0)
      (Array_sort (compareBuilders lc ar st) builders)"
    by (rule sorted_Array_sort) (auto simp: compareBuilders_rank_asc[OF assms])
  then show ?thesis by (simp add: sortedBuilders_def compareBuilders_rank_asc[OF assms])
qed

lemma sortedBuilders_rank_desc:
  assumes "sortField st = Rank" "sortDirection st = Desc"
  shows "sorted_wrt (\<lambda>a b. totalRevenue a \<le> totalRevenue b) (sortedBuilders lc ar st builders)"
proof -
  have "sorted_wrt (\<lambda>a b. compareBuilders lc ar st a b \<le> 0)
      (Array_sort (compareBuilders lc ar st) builders)"
    by (rule sorted_Array_sort) (auto simp: compareBuilders_rank_desc[OF assms])
  then show ?thesis by (simp add: sortedBuilders_def compareBuilders_rank_desc[OF assms])
qed

lemma compareBuilders_totalRevenue_desc:
  "sortField st = TotalRevenue \<Longrightarrow> sortDirection st = Desc \<Longrightarrow>
    compareBuilders lc ar st a b = totalRevenue b - totalRevenue a"
  by (simp add: compareBuilders_def)

lemma sortedBuilders_totalRevenue_desc:
  assumes "sortField st = TotalRevenue" "sortDirection st = Desc"
  shows "sorted_wrt (\<lambda>a b. totalRevenue a \<ge> totalRevenue b) (sortedBuilders lc ar st builders)"
proof -
  have "sorted_wrt (\<lambda>a b. compareBuilders lc ar st a b \<le> 0)
      (Array_sort (compareBuilders lc ar st) builders)"
    by (rule sorted_Array_sort) (auto simp: compareBuilders_totalRevenue_desc[OF assms])
  then show ?thesis
    by (simp add: sortedBuilders_def compareBuilders_totalRevenue_desc[OF assms])
qed

lemma paginatedBuilders_eq:
  assumes "1 \<le> page"
  shows "paginatedBuilders s page = take 10 (drop (nat (page - 1) * 10) s)"
proof -
  define n where "n = nat (page - 1)"
  have a: "(page - 1) * 10 = int (n * 10)" and b: "page * 10 = int (n * 10 + 10)"
    using assms by (simp_all add: n_def)
  have "Array_slice s (int (n * 10)) (int (n * 10 + 10))
      = take (nat (int (n * 10 + 10)) - nat (int (n * 10))) (drop (nat (int (n * 10))) s)"
    by (rule Array_slice_nonneg) simp_all
  also have "\<dots> = take 10 (drop (n * 10) s)"
    by (simp only: nat_int) simp
  finally show ?thesis
    by (simp only: paginatedBuilders_def itemsPerPage_def a b n_def)
qed

lemma tableRows_position:
  assumes "1 \<le> page" and "(r, b) \<in> set (tableRows s page)"
  shows "1 \<le> r \<and> r \<le> int (length s) \<and> s ! nat (r - 1) = b"
proof -
  define n where "n = nat (page - 1)"
  have pg: "page - 1 = int n" using assms(1) by (simp add: n_def)
  from assms obtain i where i: "i < length (take 10 (drop (n * 10) s))"
    "b = take 10 (drop (n * 10) s) ! i" "r = (page - 1) * 10 + int i + 1"
    by (auto simp: tableRows_def paginatedBuilders_eq itemsPerPage_def in_set_enumerate_eq
        n_def)
  from i(1) have "i < length s - n * 10" by simp
  then have lt: "n * 10 + i < length s" by linarith
  then have "n * 10 \<le> length s" by linarith
  with i(1,2) have b: "b = s ! (n * 10 + i)" by simp
  have r: "r = int (n * 10 + i) + 1" using i(3) by (simp only: pg of_nat_add of_nat_mult of_nat_numeral)
  then have "nat (r - 1) = n * 10 + i" by simp
  with lt b r show ?thesis by simp
qed

text \<open>
  C7, as the code has it. With \<open>sortField = Rank\<close> the builders come in descending order of
  \<open>totalRevenue\<close> when \<open>sortDirection = Asc\<close> and in ascending order of \<open>totalRevenue\<close>
  when \<open>sortDirection = Desc\<close> (the comparator flips the direction for the rank). When the
  table is sorted by rank ascending or by total revenue descending, on every page from 1
  on, the list is in descending order of revenue and the rank shown in a row is the 1-based
  position of the row's builder in it.
\<close>

theorem rank_sort_and_shown_rank:
  "(sortField st = Rank \<and> sortDirection st = Asc \<longrightarrow>
      sorted_wrt (\<lambda>a b. totalRevenue a \<ge> totalRevenue b) (sortedBuilders lc ar st builders))
   \<and> (sortField st = Rank \<and> sortDirection st = Desc \<longrightarrow>
      sorted_wrt (\<lambda>a b. totalRevenue a \<le> totalRevenue b) (sortedBuilders lc ar st builders))
   \<and> ((sortField st = Rank \<and> sortDirection st = Asc
        \<or> sortField st = TotalRevenue \<and> sortDirection st = Desc)
       \<and> 1 \<le> currentPage st \<longrightarrow>
      sorted_wrt (\<lambda>a b. totalRevenue a \<ge> totalRevenue b) (sortedBuilders lc ar st builders)
      \<and> (\<forall>(r, b) \<in> set (tableRows (sortedBuilders lc ar st builders) (currentPage st)).
           1 \<le> r \<and> r \<le> int (length builders)
           \<and> sortedBuilders lc ar st builders ! nat (r - 1) = b))"
  using tableRows_position[of "currentPage st" _ _ "sortedBuilders lc ar st builders"]
  by (auto simp: sortedBuilders_rank_asc sortedBuilders_rank_desc
      sortedBuilders_totalRevenue_desc length_sortedBuilders)

text \<open>
  C7, as stated, fails twice. From the initial state, \<open>handleSort\<close> on the rank gives
  \<open>sortField = Rank\<close> with \<open>sortDirection = Desc\<close>, and two builders with revenues 1 and 2
  then come in ascending order of revenue. And with the table sorted by total revenue
  ascending, rank 1 is shown for the builder with the lower revenue.
\<close>

theorem rank_sort_not_always_descending:
  "sortField (handleSort initialState Rank) = Rank
   \<and> \<not> sorted_wrt (\<lambda>a b. totalRevenue a \<ge> totalRevenue b)
     (sortedBuilders (\<lambda>a b. 0) Map.empty (handleSort initialState Rank)
       [\<lparr>builderCode = ''LOW'', builderName = None, totalRevenue = 1\<rparr>,
        \<lparr>builderCode = ''HIGH'', builderName = None, totalRevenue = 2\<rparr>])
   \<and> tableRows (sortedBuilders (\<lambda>a b. 0) Map.empty
        \<lparr>sortField = TotalRevenue, sortDirection = Asc, currentPage = 1\<rparr>
       [\<lparr>builderCode = ''LOW'', builderName = None, totalRevenue = 1\<rparr>,
        \<lparr>builderCode = ''HIGH'', builderName = None, totalRevenue = 2\<rparr>]) 1
     = [(1, \<lparr>builderCode = ''LOW'', builderName = None, totalRevenue = 1\<rparr>),
        (2, \<lparr>builderCode = ''HIGH'', builderName = None, totalRevenue = 2\<rparr>)]"
  by (simp add: sortedBuilders_def compareBuilders_def handleSort_def initialState_def
      tableRows_def paginatedBuilders_def itemsPerPage_def Array_slice_def relativeIndex_def
      enumerate_eq_zip upt_rec)

text \<open>
  C7, as the code has it, after two \<open>handleSort\<close> on the rank from the initial state
  (\<open>sortField = Rank\<close>, \<open>sortDirection = Asc\<close>, page 1), for two builders.
\<close>

theorem rank_sort_and_shown_rank_witness:
  "sortField (handleSort (handleSort initialState Rank) Rank) = Rank
   \<and> sortDirection (handleSort (handleSort initialState Rank) Rank) = Asc
   \<and> 1 \<le> currentPage (handleSort (handleSort initialState Rank) Rank)
   \<and> sorted_wrt (\<lambda>a b. totalRevenue a \<ge> totalRevenue b)
       (sortedBuilders (\<lambda>a b. 0) Map.empty (handleSort (handleSort initialState Rank) Rank)
       [\<lparr>builderCode = ''LOW'', builderName = None, totalRevenue = 1\<rparr>,
        \<lparr>builderCode = ''HIGH'', builderName = None, totalRevenue = 2\<rparr>])
   \<and> tableRows (sortedBuilders (\<lambda>a b. 0) Map.empty (handleSort (handleSort initialState Rank) Rank)
       [\<lparr>builderCode = ''LOW'', builderName = None, totalRevenue = 1\<rparr>,
        \<lparr>builderCode = ''HIGH'', builderName = None, totalRevenue = 2\<rparr>]) 1
     = [(1, \<lparr>builderCode = ''HIGH'', builderName = None, totalRevenue = 2\<rparr>),
        (2, \<lparr>builderCode = ''LOW'', builderName = None, totalRevenue = 1\<rparr>)]"
proof -
  let ?st = "handleSort (handleSort initialState Rank) Rank"
  have st: "sortField ?st = Rank" "sortDirection ?st = Asc" "currentPage ?st = 1"
    by (simp_all add: handleSort_def initialState_def)
  have rows: "tableRows (sortedBuilders (\<lambda>a b. 0) Map.empty ?st
       [\<lparr>builderCode = ''LOW'', builderName = None, totalRevenue = 1\<rparr>,
        \<lparr>builderCode = ''HIGH'', builderName = None, totalRevenue = 2\<rparr>]) 1
     = [(1, \<lparr>builderCode = ''HIGH'', builderName = None, totalRevenue = 2\<rparr>),
        (2, \<lparr>builderCode = ''LOW'', builderName = None, totalRevenue = 1\<rparr>)]"
    by (simp add: sortedBuilders_def compareBuilders_def st
      tableRows_def paginatedBuilders_def itemsPerPage_def Array_slice_def relativeIndex_def
      enumerate_eq_zip upt_rec)
  show ?thesis
    using rank_sort_and_shown_rank[of ?st "\<lambda>a b. 0" Map.empty "[\<lparr>builderCode = ''LOW'', builderName = None, totalRevenue = 1\<rparr>,
        \<lparr>builderCode = ''HIGH'', builderName = None, totalRevenue = 2\<rparr>]"] st rows
    by simp
qed

text \<open>
  C9. The page size is 10, and for a list of 25 builders page 3 holds 5 builders, the
  pagination bar is rendered, and its Next button is disabled there.
\<close>

theorem page_three_of_25_builders:
  assumes "length builders = 25" and "currentPage st = 3"
  shows "itemsPerPage = 10
    \<and> length (paginatedBuilders (sortedBuilders lc ar st builders) (currentPage st)) = 5
    \<and> paginationShown (sortedBuilders lc ar st builders)
    \<and> nextDisabled (sortedBuilders lc ar st builders) (currentPage st)"
proof -
  let ?s = "sortedBuilders lc ar st builders"
  have len: "length ?s = 25" using assms by (simp add: length_sortedBuilders)
  have tp: "totalPages ?s = 3"
  proof -
    have "\<lceil>(25::real) / 10\<rceil> = 3" by linarith
    then show ?thesis by (simp add: totalPages_def len itemsPerPage_def)
  qed
  have "paginatedBuilders ?s 3 = take 10 (drop 20 ?s)"
    by (simp add: paginatedBuilders_def itemsPerPage_def Array_slice_nonneg)
  then have "length (paginatedBuilders ?s 3) = 5" by (simp add: len)
  with tp assms show ?thesis
    by (simp add: itemsPerPage_def paginationShown_def nextDisabled_def)
qed

text \<open>C9 at 25 copies of one builder, on page 3 of the initial sort.\<close>

theorem page_three_of_25_builders_witness:
  "length (replicate 25 \<lparr>builderCode = ''PVP001'', builderName = Some ''pvp.trade'', totalRevenue = 1\<rparr>) = 25
   \<and> currentPage (initialState\<lparr>currentPage := 3\<rparr>) = 3
   \<and> length (paginatedBuilders (sortedBuilders (\<lambda>a b. 0) Map.empty (initialState\<lparr>currentPage := 3\<rparr>)
        (replicate 25 \<lparr>builderCode = ''PVP001'', builderName = Some ''pvp.trade'', totalRevenue = 1\<rparr>)) 3) = 5
   \<and> nextDisabled (sortedBuilders (\<lambda>a b. 0) Map.empty (initialState\<lparr>currentPage := 3\<rparr>)
        (replicate 25 \<lparr>builderCode = ''PVP001'', builderName = Some ''pvp.trade'', totalRevenue = 1\<rparr>)) 3"
  using page_three_of_25_builders[of "replicate 25 \<lparr>builderCode = ''PVP001'', builderName = Some ''pvp.trade'', totalRevenue = 1\<rparr>"
      "initialState\<lparr>currentPage := 3\<rparr>" "\<lambda>a b. 0" Map.empty]
  by simp

section \<open>Properties of the tiers\<close>

lemma floor_fifth: "\<lfloor>real n / 5\<rfloor> = int (n div 5)"
  using floor_divide_of_nat_eq[of n 5] by simp

lemma topTierSize_eq: "topTierSize rest = max 1 (int (length rest div 5))"
  by (simp add: topTierSize_def floor_fifth)

lemma cursedTierSize_eq: "cursedTierSize rest = max 1 (int (length rest div 5))"
  by (simp add: cursedTierSize_def floor_fifth)

text \<open>
  For a remainder of at least two projects the three tiers, in order, make up the
  remainder, and the top and the cursed tier have the sizes computed for them.
\<close>

lemma tiers_partition:
  assumes "2 \<le> length rest"
  shows "topTier rest @ midTier rest @ cursedTier rest = rest"
    and "int (length (topTier rest)) = topTierSize rest"
    and "int (length (cursedTier rest)) = cursedTierSize rest"
proof -
  define t where "t = max 1 (length rest div 5)"
  define k where "k = length rest - t"
  have t: "topTierSize rest = int t" "cursedTierSize rest = int t"
    by (simp_all add: topTierSize_eq cursedTierSize_eq t_def)
  have t2: "2 * t \<le> length rest" "1 \<le> t" using assms by (auto simp: t_def max_def)
  have k: "t \<le> k" "k + t = length rest" using t2 by (simp_all add: k_def)
  have tm: "topTierSize rest + midTierSize rest = int k"
    using k by (simp add: midTierSize_def t)
  have top: "topTier rest = take t rest"
    by (simp add: topTier_def t Array_slice_nonneg)
  have "midTier rest = Array_slice rest (topTierSize rest) (int k)"
    by (simp only: midTier_def tm)
  then have mid: "midTier rest = take (k - t) (drop t rest)"
    using k by (simp add: t Array_slice_nonneg)
  have "cursedTier rest = Array_slice_from rest (int k)"
    by (simp only: cursedTier_def tm)
  then have cur: "cursedTier rest = drop k rest"
    by (simp add: Array_slice_from_nonneg)
  have "k - t + t = k" using k(1) by simp
  then have "drop k rest = drop (k - t) (drop t rest)"
    by (simp only: drop_drop)
  then have "take (k - t) (drop t rest) @ drop k rest = drop t rest"
    by (simp only: append_take_drop_id)
  then show "topTier rest @ midTier rest @ cursedTier rest = rest"
    by (simp add: top mid cur)
  show "int (length (topTier rest)) = topTierSize rest" using t2 by (simp add: top t)
  show "int (length (cursedTier rest)) = cursedTierSize rest" using k by (simp add: cur t)
qed

text \<open>
  C8, at a ranking of four projects. The remainder after the top three is the one project
  \<open>d\<close>; the mid-tier size is -1, the top tier is \<open>[d]\<close>, the mid tier is empty and the
  cursed tier is \<open>[d]\<close> again, so the tiers together list \<open>d\<close> twice.
\<close>

theorem single_remaining_project_in_two_tiers:
  fixes a b c d :: ProjectWithAuraScore
  shows "remaining [a, b, c, d] = [d]
   \<and> topTier (remaining [a, b, c, d]) = [d]
   \<and> midTier (remaining [a, b, c, d]) = []
   \<and> cursedTier (remaining [a, b, c, d]) = [d]
   \<and> topTier (remaining [a, b, c, d]) @ midTier (remaining [a, b, c, d])
       @ cursedTier (remaining [a, b, c, d]) = [d, d]"
proof -
  have r: "remaining [a, b, c, d] = [d]"
    by (simp add: remaining_def Array_slice_from_nonneg)
  have s: "topTierSize [d] = 1" "cursedTierSize [d] = 1" "midTierSize [d] = - 1"
    by (simp_all add: topTierSize_eq cursedTierSize_eq midTierSize_def)
  have t: "topTier [d] = [d]" by (simp add: topTier_def s Array_slice_nonneg)
  have m: "midTier [d] = []" by (simp add: midTier_def s Array_slice_def relativeIndex_def)
  have c: "cursedTier [d] = [d]" by (simp add: cursedTier_def s Array_slice_from_nonneg)
  show ?thesis by (simp add: r t m c)
qed

end
